theory Spec2Isabelle
  imports Main "HOL-Library.Word"
begin

section \<open>JavaScript strings and class lists\<close>

text \<open>
  A JavaScript string is a sequence of 16-bit code units; \<open>length\<close>, \<open>substring\<close>,
  \<open>includes\<close> and \<open>trim\<close> all work on code units. The literals of \<^verbatim>\<open>script.js\<close> are
  written with \<open>js\<close> where they are ASCII and as code units otherwise.
\<close>

type_synonym jsstring = "16 word list"

definition js :: "string \<Rightarrow> jsstring" where
  "js s = map (\<lambda>c. of_nat (of_char c)) s"

text \<open>
  \<^verbatim>\<open>text.substring(0, n)\<close>: both arguments are clamped to \<open>0..length\<close>, so a negative
  \<open>n\<close> gives the empty string and an \<open>n\<close> beyond the end the whole string.
\<close>

definition substring0 :: "jsstring \<Rightarrow> int \<Rightarrow> jsstring" where
  "substring0 s n = take (nat n) s"

text \<open>
  \<^verbatim>\<open>hay.includes(needle)\<close>: the needle occurs in the haystack as a contiguous run of code units.
\<close>

fun starts_with :: "jsstring \<Rightarrow> jsstring \<Rightarrow> bool" where
  "starts_with hay [] = True"
| "starts_with [] (n # ns) = False"
| "starts_with (h # hs) (n # ns) = (h = n \<and> starts_with hs ns)"

fun js_includes :: "jsstring \<Rightarrow> jsstring \<Rightarrow> bool" where
  "js_includes [] needle = (needle = [])"
| "js_includes (h # hs) needle = (starts_with (h # hs) needle \<or> js_includes hs needle)"

text \<open>
  The code units that \<^verbatim>\<open>trim\<close> strips: the WhiteSpace and LineTerminator productions of
  ECMAScript (tab, VT, FF, space, NBSP, BOM, the Unicode space separators, LF, CR, LS, PS).
\<close>

definition isWhiteSpace :: "16 word \<Rightarrow> bool" where
  "isWhiteSpace c = (c \<in> set
     [0x0009, 0x000A, 0x000B, 0x000C, 0x000D, 0x0020, 0x00A0, 0x1680,
      0x2000, 0x2001, 0x2002, 0x2003, 0x2004, 0x2005, 0x2006, 0x2007, 0x2008, 0x2009, 0x200A,
      0x2028, 0x2029, 0x202F, 0x205F, 0x3000, 0xFEFF])"

definition trim :: "jsstring \<Rightarrow> jsstring" where
  "trim s = rev (dropWhile isWhiteSpace (rev (dropWhile isWhiteSpace s)))"

text \<open>
  What a handler can throw. A handler that throws part-way leaves the writes it has already
  made, so an outcome carries the page state in both cases.
\<close>

datatype js_error = TypeError | SyntaxError

datatype 's outcome = Done 's | Threw js_error 's

text \<open>
  An element's \<^verbatim>\<open>classList\<close> is an ordered set of tokens. \<^verbatim>\<open>toggle(c)\<close> removes the token when
  present and adds it otherwise; \<^verbatim>\<open>toggle(c, force)\<close> adds when \<open>force\<close> holds and removes otherwise.
\<close>

type_synonym classList = "jsstring list"

definition classList_contains :: "jsstring \<Rightarrow> classList \<Rightarrow> bool" where
  "classList_contains c cs = (c \<in> set cs)"

definition classList_add :: "jsstring \<Rightarrow> classList \<Rightarrow> classList" where
  "classList_add c cs = (if c \<in> set cs then cs else cs @ [c])"

definition classList_remove :: "jsstring \<Rightarrow> classList \<Rightarrow> classList" where
  "classList_remove c cs = filter (\<lambda>x. x \<noteq> c) cs"

definition classList_toggle :: "jsstring \<Rightarrow> classList \<Rightarrow> classList" where
  "classList_toggle c cs = (if c \<in> set cs then classList_remove c cs else cs @ [c])"

definition classList_toggle_force :: "jsstring \<Rightarrow> bool \<Rightarrow> classList \<Rightarrow> classList" where
  "classList_toggle_force c force cs = (if force then classList_add c cs else classList_remove c cs)"

section \<open>The class and timing constants\<close>

definition CLASSES_active :: jsstring where "CLASSES_active = js ''active''"
definition CLASSES_toggle :: jsstring where "CLASSES_toggle = js ''toggle''"
definition CLASSES_hide :: jsstring where "CLASSES_hide = js ''hide''"
definition CLASSES_darkMode :: jsstring where "CLASSES_darkMode = js ''dark-mode''"

definition typingSpeed :: nat where "typingSpeed = 150"
definition deletingSpeed :: nat where "deletingSpeed = 100"
definition typingPause :: nat where "typingPause = 1200"
definition formStatusClear :: nat where "formStatusClear = 6000"

section \<open>The typewriter effect (\<^verbatim>\<open>initTypingEffect\<close>)\<close>

text \<open>
  The closure of \<^verbatim>\<open>initTypingEffect\<close> holds \<open>index\<close> and \<open>isDeleting\<close>; \<open>innerHTML\<close> is the
  string last assigned to the target element; \<open>pending\<close> lists the delays of the
  \<^verbatim>\<open>setTimeout(typeWriter, d)\<close> calls that have not fired yet, oldest first.
\<close>

record typing_state =
  index :: int
  isDeleting :: bool
  innerHTML :: jsstring
  pending :: "nat list"

text \<open>The string the page types; the step below takes the string as a parameter.\<close>

definition heroText :: jsstring where
  "heroText = js ''Adidtiya Kurniawan''"

text \<open>One call of \<^verbatim>\<open>typeWriter\<close>, for the display string \<open>t\<close>.\<close>

definition typeWriter :: "jsstring \<Rightarrow> typing_state \<Rightarrow> typing_state" where
  "typeWriter t s =
     (let s1 = s\<lparr>innerHTML := substring0 t (index s)\<rparr> in
      if \<not> isDeleting s1 \<and> index s1 < int (length t) then
        s1\<lparr>index := index s1 + 1, pending := pending s1 @ [typingSpeed]\<rparr>
      else if isDeleting s1 \<and> index s1 > 0 then
        s1\<lparr>index := index s1 - 1, pending := pending s1 @ [deletingSpeed]\<rparr>
      else
        s1\<lparr>isDeleting := \<not> isDeleting s1, pending := pending s1 @ [typingPause]\<rparr>)"

text \<open>
  \<^verbatim>\<open>initTypingEffect\<close>: without the target element nothing is started; with it (its current
  content is \<open>h\<close>) the closure starts at index 0, not deleting, and \<^verbatim>\<open>typeWriter\<close> is called once.
\<close>

definition initTypingEffect :: "jsstring \<Rightarrow> jsstring option \<Rightarrow> typing_state option" where
  "initTypingEffect t el =
     (case el of
        None \<Rightarrow> None
      | Some h \<Rightarrow> Some (typeWriter t \<lparr>index = 0, isDeleting = False, innerHTML = h, pending = []\<rparr>))"

text \<open>
  The event loop: the oldest pending timer fires and runs \<^verbatim>\<open>typeWriter\<close>. With no timer
  pending nothing can run any more: the machine has stopped.
\<close>

definition fire :: "jsstring \<Rightarrow> typing_state \<Rightarrow> typing_state option" where
  "fire t s =
     (case pending s of
        [] \<Rightarrow> None
      | d # ds \<Rightarrow> Some (typeWriter t (s\<lparr>pending := ds\<rparr>)))"

fun run :: "jsstring \<Rightarrow> nat \<Rightarrow> typing_state \<Rightarrow> typing_state option" where
  "run t 0 s = Some s"
| "run t (Suc n) s = (case fire t s of None \<Rightarrow> None | Some s' \<Rightarrow> run t n s')"

text \<open>The states the page can be in once the effect has been started.\<close>

inductive reachable :: "jsstring \<Rightarrow> typing_state \<Rightarrow> bool" for t :: jsstring where
  start: "initTypingEffect t (Some h) = Some s \<Longrightarrow> reachable t s"
| step: "reachable t s \<Longrightarrow> fire t s = Some s' \<Longrightarrow> reachable t s'"

text \<open>
  What the next \<open>n\<close> calls of \<^verbatim>\<open>typeWriter\<close> do: for each call, whether it was made while
  deleting, and the string it assigned to \<^verbatim>\<open>innerHTML\<close>.
\<close>

fun trace :: "jsstring \<Rightarrow> nat \<Rightarrow> typing_state \<Rightarrow> (bool \<times> jsstring) list" where
  "trace t 0 s = []"
| "trace t (Suc n) s =
     (case fire t s of
        None \<Rightarrow> []
      | Some s' \<Rightarrow> (isDeleting s, innerHTML s') # trace t n s')"

section \<open>Smooth scrolling (\<^verbatim>\<open>initSmoothScrolling\<close>)\<close>

text \<open>
  The click handler of an anchor whose \<^verbatim>\<open>href\<close> starts with \<^verbatim>\<open>#\<close>. The selector engine is the
  browser's: \<^verbatim>\<open>document.querySelector(href)\<close> throws on a string that is no selector (such as
  \<^verbatim>\<open>#\<close> alone), gives \<^verbatim>\<open>null\<close> when nothing matches, and the first matching element otherwise.
  The handler scrolls to the target and then closes the mobile menu if it is open.
\<close>

datatype query_result = InvalidSelector | NoMatch | Match nat

record nav_page =
  navLinks :: "classList option"
  hamburger :: "classList option"
  scrolledTo :: "nat option"

definition smoothScrollClick :: "query_result \<Rightarrow> nav_page \<Rightarrow> nav_page outcome" where
  "smoothScrollClick target p =
     (case target of
        InvalidSelector \<Rightarrow> Threw SyntaxError p
      | NoMatch \<Rightarrow> Threw TypeError p
      | Match el \<Rightarrow>
          (let p1 = p\<lparr>scrolledTo := Some el\<rparr> in
           case navLinks p1 of
             None \<Rightarrow> Done p1
           | Some cs \<Rightarrow>
               if classList_contains CLASSES_active cs then
                 Done (p1\<lparr>navLinks := Some (classList_remove CLASSES_active cs),
                           hamburger := map_option (classList_remove CLASSES_toggle) (hamburger p1)\<rparr>)
               else Done p1))"

section \<open>The theme toggle (\<^verbatim>\<open>initThemeToggle\<close>)\<close>

record toggle_button =
  textContent :: jsstring
  ariaLabel :: jsstring

record theme_page =
  bodyClasses :: classList
  themeToggle :: "toggle_button option"

text \<open>The two icons: U+1F319 (a surrogate pair) and U+2600 U+FE0F.\<close>

definition moon :: jsstring where "moon = [0xD83C, 0xDF19]"
definition sun :: jsstring where "sun = [0x2600, 0xFE0F]"

text \<open>
  A click on the toggle. The listener is attached only when the toggle exists; without it no
  click reaches any handler.
\<close>

definition themeClick :: "theme_page \<Rightarrow> theme_page" where
  "themeClick p =
     (case themeToggle p of
        None \<Rightarrow> p
      | Some b \<Rightarrow>
          (let cs = classList_toggle CLASSES_darkMode (bodyClasses p);
               isDarkMode = classList_contains CLASSES_darkMode cs
           in p\<lparr>bodyClasses := cs,
                themeToggle := Some (b\<lparr>textContent := (if isDarkMode then moon else sun),
                  ariaLabel := (if isDarkMode then js ''Switch to light mode''
                                else js ''Switch to dark mode'')\<rparr>)\<rparr>))"

fun themeClicks :: "nat \<Rightarrow> theme_page \<Rightarrow> theme_page" where
  "themeClicks 0 p = p"
| "themeClicks (Suc n) p = themeClicks n (themeClick p)"

text \<open>The body carries the dark-mode class; the toggle's icon and label agree with it.\<close>

definition isDark :: "theme_page \<Rightarrow> bool" where
  "isDark p = classList_contains CLASSES_darkMode (bodyClasses p)"

definition themeAgrees :: "theme_page \<Rightarrow> bool" where
  "themeAgrees p =
     (case themeToggle p of
        None \<Rightarrow> False
      | Some b \<Rightarrow>
          (textContent b = moon) = isDark p \<and> (textContent b = sun) = (\<not> isDark p)
          \<and> (ariaLabel b = js ''Switch to light mode'') = isDark p
          \<and> (ariaLabel b = js ''Switch to dark mode'') = (\<not> isDark p))"

section \<open>The project filter (\<^verbatim>\<open>initProjectFilter\<close>)\<close>

text \<open>
  The filter container and the elements inside it, in document order, each with its class
  list and its \<^verbatim>\<open>data-filter\<close> attribute (\<open>None\<close> when it has none); the project cards with their
  \<^verbatim>\<open>data-category\<close> (\<open>None\<close> when absent, so that \<^verbatim>\<open>dataset.category\<close> is \<^verbatim>\<open>undefined\<close>).
\<close>

record filter_element =
  fe_classes :: classList
  data_filter :: "jsstring option"

record project_card =
  card_classes :: classList
  data_category :: "jsstring option"

record filter_page =
  filterContainer :: filter_element
  filterElements :: "filter_element list"
  cards :: "project_card list"

text \<open>
  The target of a click that reaches the container's listener: the container itself or one
  of the elements inside it, by its position. A position beyond the list names no element.
\<close>

datatype filter_target = Container | Descendant nat

definition targetElement :: "filter_target \<Rightarrow> filter_page \<Rightarrow> filter_element option" where
  "targetElement tgt p =
     (case tgt of
        Container \<Rightarrow> Some (filterContainer p)
      | Descendant i \<Rightarrow>
          if i < length (filterElements p) then Some (filterElements p ! i) else None)"

text \<open>
  \<^verbatim>\<open>filterValue === 'all' || card.dataset.category.includes(filterValue)\<close>: the right operand is
  evaluated only when the left is false; it throws on a card without category, and a
  \<^verbatim>\<open>null\<close> filter value is searched for as the string \<^verbatim>\<open>null\<close>.
\<close>

definition isVisible :: "jsstring option \<Rightarrow> project_card \<Rightarrow> js_error + bool" where
  "isVisible filterValue c =
     (if filterValue = Some (js ''all'') then Inr True
      else case data_category c of
             None \<Rightarrow> Inl TypeError
           | Some cat \<Rightarrow>
               Inr (js_includes cat (case filterValue of None \<Rightarrow> js ''null'' | Some f \<Rightarrow> f)))"

text \<open>The \<^verbatim>\<open>forEach\<close> over the cards: it stops at the first card that throws.\<close>

fun filterCards :: "jsstring option \<Rightarrow> project_card list \<Rightarrow> project_card list \<times> js_error option" where
  "filterCards fv [] = ([], None)"
| "filterCards fv (c # cs) =
     (case isVisible fv c of
        Inl e \<Rightarrow> (c # cs, Some e)
      | Inr v \<Rightarrow>
          (let (cs', r) = filterCards fv cs
           in (c\<lparr>card_classes := classList_toggle_force CLASSES_hide (\<not> v) (card_classes c)\<rparr> # cs', r)))"

text \<open>\<^verbatim>\<open>filterContainer.querySelector('.active')?.classList.remove('active')\<close>: the first one only.\<close>

fun removeFirstActive :: "filter_element list \<Rightarrow> filter_element list" where
  "removeFirstActive [] = []"
| "removeFirstActive (e # es) =
     (if classList_contains CLASSES_active (fe_classes e)
      then e\<lparr>fe_classes := classList_remove CLASSES_active (fe_classes e)\<rparr> # es
      else e # removeFirstActive es)"

text \<open>\<^verbatim>\<open>target.classList.add('active')\<close>\<close>

definition addActive :: "filter_element \<Rightarrow> filter_element" where
  "addActive e = e\<lparr>fe_classes := classList_add CLASSES_active (fe_classes e)\<rparr>"

text \<open>
  The click listener of the container. It returns at once unless the target, whichever
  element it is, carries the class \<^verbatim>\<open>filter-btn\<close>. Otherwise the first element inside the
  container that is active loses the class (\<^verbatim>\<open>querySelector\<close> searches below the container,
  not the container itself), the target gets it, and the cards are filtered by the target's
  \<^verbatim>\<open>data-filter\<close>. With no element at the target's position no click has happened.
\<close>

definition filterClick :: "filter_target \<Rightarrow> filter_page \<Rightarrow> filter_page outcome" where
  "filterClick tgt p =
     (case targetElement tgt p of
        None \<Rightarrow> Done p
      | Some target \<Rightarrow>
          if \<not> classList_contains (js ''filter-btn'') (fe_classes target) then Done p
          else
            (let p1 = p\<lparr>filterElements := removeFirstActive (filterElements p)\<rparr>;
                 p2 = (case tgt of
                         Container \<Rightarrow> p1\<lparr>filterContainer := addActive (filterContainer p1)\<rparr>
                       | Descendant i \<Rightarrow>
                           p1\<lparr>filterElements :=
                                (filterElements p1)[i := addActive (filterElements p1 ! i)]\<rparr>);
                 filterValue = (case tgt of
                                  Container \<Rightarrow> data_filter (filterContainer p2)
                                | Descendant i \<Rightarrow> data_filter (filterElements p2 ! i));
                 (cs, r) = filterCards filterValue (cards p2);
                 p' = p2\<lparr>cards := cs\<rparr>
             in case r of None \<Rightarrow> Done p' | Some e \<Rightarrow> Threw e p'))"

text \<open>A card is shown unless it carries the \<^verbatim>\<open>hide\<close> class.\<close>

definition shown :: "project_card \<Rightarrow> bool" where
  "shown c = (\<not> classList_contains CLASSES_hide (card_classes c))"

text \<open>
  The rule in the words of the specification, for comparison: the category field read as a
  set of whitespace-separated tags, and membership of the filter value in that set.
\<close>

fun split_ws :: "jsstring \<Rightarrow> jsstring \<Rightarrow> jsstring list" where
  "split_ws acc [] = (if acc = [] then [] else [acc])"
| "split_ws acc (c # cs) =
     (if isWhiteSpace c then (if acc = [] then split_ws [] cs else acc # split_ws [] cs)
      else split_ws (acc @ [c]) cs)"

definition category_tags :: "jsstring \<Rightarrow> jsstring list" where
  "category_tags cat = split_ws [] cat"

definition spec_visible :: "jsstring \<Rightarrow> jsstring \<Rightarrow> bool" where
  "spec_visible filterValue cat = (filterValue = js ''all'' \<or> filterValue \<in> set (category_tags cat))"

section \<open>The project modal (\<^verbatim>\<open>initProjectModal\<close>)\<close>

text \<open>The \<^verbatim>\<open>data-*\<close> attributes of a detail button; \<open>None\<close> is an absent attribute.\<close>

record detail_button =
  data_title :: "jsstring option"
  data_desc :: "jsstring option"
  data_github :: "jsstring option"
  data_live :: "jsstring option"

record link_element =
  href :: jsstring
  display :: jsstring

text \<open>
  The dialog: each part is \<open>None\<close> when the page has no such element. \<open>modal\<close> holds the
  dialog's \<^verbatim>\<open>style.display\<close>, \<open>modalTitle\<close> and \<open>modalDesc\<close> the text content, \<open>modalGithubLink\<close>
  the \<^verbatim>\<open>href\<close> attribute.
\<close>

record modal_page =
  modal :: "jsstring option"
  projectGrid :: bool
  closeModalBtn :: bool
  modalTitle :: "jsstring option"
  modalDesc :: "jsstring option"
  modalGithubLink :: "jsstring option"
  modalLiveLink :: "link_element option"

text \<open>
  Assigning \<^verbatim>\<open>undefined\<close> to \<^verbatim>\<open>textContent\<close> empties the element; assigning it to \<^verbatim>\<open>href\<close> writes the
  string \<^verbatim>\<open>undefined\<close>.
\<close>

definition asTextContent :: "jsstring option \<Rightarrow> jsstring" where
  "asTextContent v = (case v of None \<Rightarrow> [] | Some s \<Rightarrow> s)"

definition asHref :: "jsstring option \<Rightarrow> jsstring" where
  "asHref v = (case v of None \<Rightarrow> js ''undefined'' | Some s \<Rightarrow> s)"

text \<open>\<^verbatim>\<open>liveLink && liveLink.trim() !== ''\<close>\<close>

definition hasLiveLink :: "jsstring option \<Rightarrow> bool" where
  "hasLiveLink liveLink = (case liveLink of None \<Rightarrow> False | Some s \<Rightarrow> s \<noteq> [] \<and> trim s \<noteq> [])"

definition openModal :: "detail_button \<Rightarrow> modal_page \<Rightarrow> modal_page outcome" where
  "openModal detailButton p =
     (case modalTitle p of
        None \<Rightarrow> Threw TypeError p
      | Some _ \<Rightarrow>
     let p1 = p\<lparr>modalTitle := Some (asTextContent (data_title detailButton))\<rparr> in
     case modalDesc p1 of
        None \<Rightarrow> Threw TypeError p1
      | Some _ \<Rightarrow>
     let p2 = p1\<lparr>modalDesc := Some (asTextContent (data_desc detailButton))\<rparr> in
     case modalGithubLink p2 of
        None \<Rightarrow> Threw TypeError p2
      | Some _ \<Rightarrow>
     let p3 = p2\<lparr>modalGithubLink := Some (asHref (data_github detailButton))\<rparr>;
         liveLink = data_live detailButton in
     case modalLiveLink p3 of
        None \<Rightarrow> Threw TypeError p3
      | Some liveLinkButton \<Rightarrow>
     let b = (if hasLiveLink liveLink
              then liveLinkButton\<lparr>href := asHref liveLink, display := js ''inline-block''\<rparr>
              else liveLinkButton\<lparr>display := js ''none''\<rparr>)
     in Done (p3\<lparr>modalLiveLink := Some b, modal := map_option (\<lambda>_. js ''block'') (modal p3)\<rparr>))"

text \<open>
  A click inside the project grid: the listeners exist only when the dialog, the grid and the
  close control all do; \<open>target\<close> is the detail button the click hit (\<^verbatim>\<open>closest\<close>), if any.
\<close>

definition projectGridClick :: "detail_button option \<Rightarrow> modal_page \<Rightarrow> modal_page outcome" where
  "projectGridClick target p =
     (if modal p = None \<or> \<not> projectGrid p \<or> \<not> closeModalBtn p then Done p
      else case target of None \<Rightarrow> Done p | Some detailButton \<Rightarrow> openModal detailButton p)"

section \<open>The contact form (\<^verbatim>\<open>initContactForm\<close>)\<close>

subsection \<open>Parsed response bodies\<close>

text \<open>
  A value produced by \<^verbatim>\<open>response.json()\<close>. The handler does no arithmetic, so a number is
  carried as the string \<^verbatim>\<open>String(n)\<close> gives for it (\<^verbatim>\<open>0\<close> for both zeros). An object is the list
  of its own properties; a parsed object has each key once.
\<close>

datatype json =
    JNull
  | JBool bool
  | JNum jsstring
  | JStr jsstring
  | JArr "json list"
  | JObj "(jsstring \<times> json) list"

text \<open>
  Reading a property that no built-in prototype defines (\<^verbatim>\<open>errors\<close> and \<^verbatim>\<open>message\<close> are such):
  it throws on \<^verbatim>\<open>null\<close>, is \<^verbatim>\<open>undefined\<close> (\<open>None\<close>) on every value but an object that has it.
\<close>

fun getProp :: "json \<Rightarrow> jsstring \<Rightarrow> js_error + json option" where
  "getProp JNull k = Inl TypeError"
| "getProp (JObj ps) k = Inr (map_of ps k)"
| "getProp v k = Inr None"

fun truthy :: "json option \<Rightarrow> bool" where
  "truthy None = False"
| "truthy (Some JNull) = False"
| "truthy (Some (JBool b)) = b"
| "truthy (Some (JNum r)) = (r \<noteq> js ''0'')"
| "truthy (Some (JStr s)) = (s \<noteq> [])"
| "truthy (Some (JArr xs)) = True"
| "truthy (Some (JObj ps)) = True"

text \<open>
  \<^verbatim>\<open>Array.prototype.join\<close>: \<^verbatim>\<open>null\<close> and \<^verbatim>\<open>undefined\<close> elements give the empty string, every other
  element its string conversion. An array converts by joining with a comma; a plain object
  converts to \<^verbatim>\<open>[object Object]\<close>, unless an own property \<^verbatim>\<open>toString\<close> (never callable in
  parsed data) shadows the inherited method, in which case the conversion throws.
\<close>

fun toString :: "json \<Rightarrow> js_error + jsstring"
  and join :: "jsstring \<Rightarrow> json list \<Rightarrow> js_error + jsstring" where
  "toString JNull = Inr (js ''null'')"
| "toString (JBool b) = Inr (if b then js ''true'' else js ''false'')"
| "toString (JNum r) = Inr r"
| "toString (JStr s) = Inr s"
| "toString (JArr xs) = join (js '','') xs"
| "toString (JObj ps) =
     (if map_of ps (js ''toString'') = None then Inr (js ''[object Object]'') else Inl TypeError)"
| "join sep [] = Inr []"
| "join sep (x # xs) =
     (case (if x = JNull then Inr [] else toString x) of
        Inl e \<Rightarrow> Inl e
      | Inr s \<Rightarrow>
          if xs = [] then Inr s
          else (case join sep xs of Inl e \<Rightarrow> Inl e | Inr r \<Rightarrow> Inr (s @ sep @ r)))"

text \<open>\<^verbatim>\<open>errors.map(err => err.message)\<close>, with \<^verbatim>\<open>undefined\<close> results written as \<^verbatim>\<open>null\<close> (\<^verbatim>\<open>join\<close>
  treats the two alike).\<close>

fun mapMessage :: "json list \<Rightarrow> js_error + json list" where
  "mapMessage [] = Inr []"
| "mapMessage (err # errs) =
     (case getProp err (js ''message'') of
        Inl e \<Rightarrow> Inl e
      | Inr m \<Rightarrow>
          (case mapMessage errs of
             Inl e \<Rightarrow> Inl e
           | Inr ms \<Rightarrow> Inr ((case m of None \<Rightarrow> JNull | Some v \<Rightarrow> v) # ms)))"

definition genericFailure :: jsstring where
  "genericFailure = js ''Oops! Ada masalah saat mengirim pesan.''"

definition connectionFailure :: jsstring where
  "connectionFailure = js ''Oops! Ada masalah koneksi.''"

definition successMessage :: jsstring where
  "successMessage = js ''Pesan berhasil dikirim. Terima kasih!''"

text \<open>
  \<^verbatim>\<open>data.errors ? data.errors.map(err => err.message).join(", ") : "Oops! ..."\<close>. Only an array
  has a \<^verbatim>\<open>map\<close> method; on any other truthy value the call throws.
\<close>

definition errorMessage :: "json \<Rightarrow> js_error + jsstring" where
  "errorMessage data =
     (case getProp data (js ''errors'') of
        Inl e \<Rightarrow> Inl e
      | Inr errors \<Rightarrow>
          if truthy errors then
            (case errors of
               Some (JArr errs) \<Rightarrow>
                 (case mapMessage errs of Inl e \<Rightarrow> Inl e | Inr ms \<Rightarrow> join (js '', '') ms)
             | _ \<Rightarrow> Inl TypeError)
          else Inr genericFailure)"

text \<open>
  For stating what the status text is: strings put together with a separator between
  them, and an error entry that is an object whose \<^verbatim>\<open>message\<close> is the string \<open>m\<close>.
\<close>

fun joinStrings :: "jsstring \<Rightarrow> jsstring list \<Rightarrow> jsstring" where
  "joinStrings sep [] = []"
| "joinStrings sep [m] = m"
| "joinStrings sep (m # n # ms) = m @ sep @ joinStrings sep (n # ms)"

text \<open>What \<^verbatim>\<open>data.errors\<close> reads on a parsed body other than \<^verbatim>\<open>null\<close> (\<open>None\<close> is \<^verbatim>\<open>undefined\<close>).\<close>

fun errorsField :: "json \<Rightarrow> json option" where
  "errorsField (JObj ps) = map_of ps (js ''errors'')"
| "errorsField v = None"

fun isArray :: "json option \<Rightarrow> bool" where
  "isArray (Some (JArr xs)) = True"
| "isArray v = False"

definition hasMessage :: "json \<Rightarrow> jsstring \<Rightarrow> bool" where
  "hasMessage e m = (case e of JObj qs \<Rightarrow> map_of qs (js ''message'') = Some (JStr m) | _ \<Rightarrow> False)"

subsection \<open>The submit handler\<close>

text \<open>
  What \<^verbatim>\<open>await fetch(...)\<close> and, on a failure status, \<^verbatim>\<open>await response.json()\<close> give the handler:
  the request is rejected, or a response arrives with its status and a body that parses or
  does not.
\<close>

datatype body = Malformed | Parsed json

datatype fetch_outcome = Rejected | Response nat body

definition response_ok :: "nat \<Rightarrow> bool" where
  "response_ok status = (200 \<le> status \<and> status \<le> 299)"

record form_field =
  fieldValue :: jsstring
  defaultValue :: jsstring

record submit_button =
  disabled :: bool
  label :: jsstring

text \<open>
  The form and its status element (the handler is attached only when both exist): the
  fields, the first \<^verbatim>\<open>button[type="submit"]\<close> inside the form if there is one, the status text
  and colour, the current time in milliseconds, and the due times of the pending
  clear-the-status timers.
\<close>

record contact_page =
  formFields :: "form_field list"
  submitButton :: "submit_button option"
  statusText :: jsstring
  statusColor :: jsstring
  clock :: nat
  clearTimers :: "nat list"

text \<open>\<^verbatim>\<open>form.reset()\<close> puts every field back to its default value.\<close>

definition form_reset :: "form_field list \<Rightarrow> form_field list" where
  "form_reset fs = map (\<lambda>f. f\<lparr>fieldValue := defaultValue f\<rparr>) fs"

text \<open>The handler up to \<^verbatim>\<open>await fetch\<close>: it runs outside the \<^verbatim>\<open>try\<close>.\<close>

definition submitStart :: "contact_page \<Rightarrow> contact_page outcome" where
  "submitStart p =
     (case submitButton p of
        None \<Rightarrow> Threw TypeError p
      | Some b \<Rightarrow> Done (p\<lparr>submitButton := Some (b\<lparr>disabled := True, label := js ''Mengirim...''\<rparr>)\<rparr>))"

text \<open>The body of the \<^verbatim>\<open>try\<close> after the request has settled; \<open>Inl\<close> is a throw into \<^verbatim>\<open>catch\<close>.\<close>

definition tryBody :: "fetch_outcome \<Rightarrow> contact_page \<Rightarrow> js_error + contact_page" where
  "tryBody oc p =
     (case oc of
        Rejected \<Rightarrow> Inl TypeError
      | Response status b \<Rightarrow>
          if response_ok status then
            Inr (p\<lparr>statusText := successMessage, statusColor := js ''green'',
                   formFields := form_reset (formFields p)\<rparr>)
          else
            (case b of
               Malformed \<Rightarrow> Inl SyntaxError
             | Parsed data \<Rightarrow>
                 (case errorMessage data of
                    Inl e \<Rightarrow> Inl e
                  | Inr m \<Rightarrow> Inr (p\<lparr>statusText := m, statusColor := js ''red''\<rparr>))))"

text \<open>The rest of the handler, in one turn: \<^verbatim>\<open>try\<close>, \<^verbatim>\<open>catch\<close>, \<^verbatim>\<open>finally\<close>.\<close>

definition submitSettle :: "fetch_outcome \<Rightarrow> contact_page \<Rightarrow> contact_page" where
  "submitSettle oc p =
     (let p1 = (case tryBody oc p of
                  Inr q \<Rightarrow> q
                | Inl e \<Rightarrow> p\<lparr>statusText := connectionFailure, statusColor := js ''red''\<rparr>)
      in p1\<lparr>submitButton :=
               map_option (\<lambda>b. b\<lparr>disabled := False, label := js ''Kirim Pesan''\<rparr>) (submitButton p1),
             clearTimers := clearTimers p1 @ [clock p1 + formStatusClear]\<rparr>)"

text \<open>
  Time passes to \<open>t\<close> with no event but the timers: every clear timer due by then fires and
  empties the status text.
\<close>

definition advance :: "nat \<Rightarrow> contact_page \<Rightarrow> contact_page" where
  "advance t p =
     (if t < clock p then p
      else if filter (\<lambda>d. d \<le> t) (clearTimers p) = [] then p\<lparr>clock := t\<rparr>
      else p\<lparr>statusText := [], clearTimers := filter (\<lambda>d. t < d) (clearTimers p), clock := t\<rparr>)"

section \<open>Properties of the typewriter\<close>

lemma typeWriter_bound:
  "0 \<le> index s \<Longrightarrow> index s \<le> int (length t) \<Longrightarrow>
   0 \<le> index (typeWriter t s) \<and> index (typeWriter t s) \<le> int (length t)"
  by (cases "isDeleting s") (auto simp: typeWriter_def Let_def)

lemma fire_bound:
  assumes "fire t s = Some s'" "0 \<le> index s" "index s \<le> int (length t)"
  shows "0 \<le> index s' \<and> index s' \<le> int (length t)"
proof (cases "pending s")
  case Nil
  with assms(1) show ?thesis by (simp add: fire_def)
next
  case (Cons d ds)
  with assms(1) have "s' = typeWriter t (s\<lparr>pending := ds\<rparr>)"
    by (simp add: fire_def)
  with assms(2,3) typeWriter_bound [of "s\<lparr>pending := ds\<rparr>" t] show ?thesis
    by simp
qed

lemma reachable_bound:
  "reachable t s \<Longrightarrow> 0 \<le> index s \<and> index s \<le> int (length t)"
proof (induction rule: reachable.induct)
  case (start h s)
  then show ?case
    by (cases t) (auto simp: initTypingEffect_def typeWriter_def Let_def split: if_splits)
next
  case (step s s')
  then show ?case using fire_bound by blast
qed

lemma fire_typing:
  "i < length t \<Longrightarrow>
   fire t \<lparr>index = int i, isDeleting = False, innerHTML = h, pending = d # ds\<rparr>
     = Some \<lparr>index = int (Suc i), isDeleting = False, innerHTML = take i t, pending = ds @ [typingSpeed]\<rparr>"
  by (simp add: fire_def typeWriter_def substring0_def Let_def)

lemma fire_full:
  "fire t \<lparr>index = int (length t), isDeleting = False, innerHTML = h, pending = d # ds\<rparr>
     = Some \<lparr>index = int (length t), isDeleting = True, innerHTML = t, pending = ds @ [typingPause]\<rparr>"
  by (simp add: fire_def typeWriter_def substring0_def Let_def)




lemma run_typing:
  "i + n \<le> length t \<Longrightarrow>
   run t (Suc n) \<lparr>index = int i, isDeleting = False, innerHTML = h, pending = [d]\<rparr>
     = (if i + n = length t
        then Some \<lparr>index = int (i + n), isDeleting = True, innerHTML = t, pending = [typingPause]\<rparr>
        else Some \<lparr>index = int (Suc (i + n)), isDeleting = False, innerHTML = take (i + n) t, pending = [typingSpeed]\<rparr>)"
proof (induction n arbitrary: i h d)
  case 0
  then show ?case using fire_typing [of i t h d "[]"] fire_full [of t h d "[]"]
    by (cases "i = length t") auto
next
  case (Suc n)
  then have "i < length t" by simp
  from fire_typing [OF this, of h d "[]"] Suc.IH [of "Suc i" "take i t" typingSpeed] Suc.prems
  show ?case by simp
qed



lemma trace_typing:
  "i + n \<le> length t \<Longrightarrow>
   trace t (Suc n) \<lparr>index = int i, isDeleting = False, innerHTML = h, pending = [d]\<rparr>
     = map (\<lambda>k. (False, take k t)) [i..<Suc (i + n)]"
proof (induction n arbitrary: i h d)
  case 0
  then show ?case using fire_typing [of i t h d "[]"] fire_full [of t h d "[]"]
    by (cases "i = length t") auto
next
  case (Suc n)
  then have "i < length t" by simp
  from fire_typing [OF this, of h d "[]"] Suc.IH [of "Suc i" "take i t" typingSpeed] Suc.prems
  show ?case by (simp add: upt_rec [of i])
qed

lemma trace_add:
  "trace t (m + n) s =
     trace t m s @ (case run t m s of None \<Rightarrow> [] | Some s' \<Rightarrow> trace t n s')"
  by (induction m arbitrary: s) (auto split: option.splits)

lemma init_state:
  "initTypingEffect t (Some h) = Some s \<Longrightarrow>
   fire t \<lparr>index = 0, isDeleting = False, innerHTML = h, pending = [d]\<rparr> = Some s"
  by (auto simp: initTypingEffect_def fire_def)




text \<open>
  Claim C4. A typing phase starts with \<open>index = 0\<close> and \<open>isDeleting = false\<close>. The calls of
  \<^verbatim>\<open>typeWriter\<close> made in it write the prefixes of the text of lengths \<open>0\<close> up to its length, in
  this order and one per call; the call after them is the first one made while deleting.
  This holds for a phase entered through a timer and for the first one, whose first call
  is made by \<^verbatim>\<open>initTypingEffect\<close> itself. Each entry of the trace pairs the phase flag at the
  call with the string the call wrote.
\<close>

theorem typing_phase_prefixes:
  "trace t (Suc (Suc (length t))) \<lparr>index = 0, isDeleting = False, innerHTML = h, pending = [d]\<rparr>
     = map (\<lambda>k. (False, take k t)) [0..<Suc (length t)] @ [(True, t)]
   \<and> (\<exists>s. initTypingEffect t (Some h) = Some s
          \<and> (False, innerHTML s) # trace t (Suc (length t)) s
              = map (\<lambda>k. (False, take k t)) [0..<Suc (length t)] @ [(True, t)])"
proof -
  let ?a = "\<lparr>index = 0, isDeleting = False, innerHTML = h, pending = [d]\<rparr>"
  let ?f = "\<lparr>index = int (length t), isDeleting = True, innerHTML = t, pending = [typingPause]\<rparr>"
  have r: "run t (Suc (length t)) ?a = Some ?f"
    using run_typing [of 0 "length t" t h d] by simp
  have tr: "trace t (Suc (length t)) ?a = map (\<lambda>k. (False, take k t)) [0..<Suc (length t)]"
    using trace_typing [of 0 "length t" t h d] by simp
  have l: "trace t 1 ?f = [(True, t)]"
    by (cases "length t") (auto simp: fire_def typeWriter_def substring0_def Let_def)
  have "Suc (Suc (length t)) = Suc (length t) + 1" by simp
  then have A: "trace t (Suc (Suc (length t))) ?a
      = map (\<lambda>k. (False, take k t)) [0..<Suc (length t)] @ [(True, t)]"
    using r tr l by (simp only: trace_add option.case)
  obtain s where s: "initTypingEffect t (Some h) = Some s"
    by (simp add: initTypingEffect_def)
  from s have f: "fire t ?a = Some s" by (rule init_state)
  have "trace t (Suc (Suc (length t))) ?a = (False, innerHTML s) # trace t (Suc (length t)) s"
    using f by simp
  with A s show ?thesis by metis
qed



text \<open>
  Claim C9. Every reachable state of the typewriter has \<open>0 \<le> index \<le> length text\<close>, and a call
  of \<^verbatim>\<open>typeWriter\<close> made within this bound ends within it.
\<close>

theorem index_invariant:
  "(reachable t s \<longrightarrow> 0 \<le> index s \<and> index s \<le> int (length t))
   \<and> (0 \<le> index s \<and> index s \<le> int (length t) \<longrightarrow>
        0 \<le> index (typeWriter t s) \<and> index (typeWriter t s) \<le> int (length t))"
  using reachable_bound [of t s] typeWriter_bound [of s t] by blast

theorem index_invariant_witness:
  "reachable (js ''ab'') \<lparr>index = 1, isDeleting = False, innerHTML = [], pending = [150]\<rparr>
   \<and> 0 \<le> index \<lparr>index = 1, isDeleting = False, innerHTML = [], pending = [150]\<rparr>
   \<and> index \<lparr>index = 1, isDeleting = False, innerHTML = [], pending = [150]\<rparr> \<le> int (length (js ''ab''))
   \<and> 0 \<le> index (typeWriter (js ''ab'') \<lparr>index = 1, isDeleting = False, innerHTML = [], pending = [150]\<rparr>)
   \<and> index (typeWriter (js ''ab'') \<lparr>index = 1, isDeleting = False, innerHTML = [], pending = [150]\<rparr>)
        \<le> int (length (js ''ab''))"
proof -
  let ?s1 = "\<lparr>index = 1, isDeleting = False, innerHTML = [], pending = [150]\<rparr>"
  have "initTypingEffect (js ''ab'') (Some []) = Some ?s1"
    by (simp add: initTypingEffect_def typeWriter_def substring0_def js_def typingSpeed_def)
  then have r1: "reachable (js ''ab'') ?s1" by (rule reachable.start)
  from index_invariant [of "js ''ab''" ?s1] r1 show ?thesis
    by simp
qed

section \<open>Properties of the theme toggle\<close>

lemma classList_toggle_contains:
  "classList_contains c (classList_toggle c cs) = (\<not> classList_contains c cs)"
  by (auto simp: classList_contains_def classList_toggle_def classList_remove_def)

lemma moon_sun: "moon \<noteq> sun"
  by (simp add: moon_def sun_def)

lemma aria_labels: "js ''Switch to light mode'' \<noteq> js ''Switch to dark mode''"
  by (simp add: js_def)

lemma themeClick_toggle: "themeToggle p = Some b \<Longrightarrow> themeToggle (themeClick p) \<noteq> None"
  by (simp add: themeClick_def Let_def)

lemma themeClick_isDark: "themeToggle p = Some b \<Longrightarrow> isDark (themeClick p) = (\<not> isDark p)"
  by (simp add: themeClick_def Let_def isDark_def classList_toggle_contains)

lemma themeClick_agrees: "themeToggle p = Some b \<Longrightarrow> themeAgrees (themeClick p)"
  using moon_sun aria_labels
  by (auto simp: themeClick_def Let_def isDark_def themeAgrees_def)

lemma themeClicks_Suc: "themeClicks (Suc n) p = themeClick (themeClicks n p)"
  by (induction n arbitrary: p) auto

lemma themeClicks_toggle: "themeToggle p = Some b \<Longrightarrow> themeToggle (themeClicks n p) \<noteq> None"
  by (induction n arbitrary: p b) (auto simp: themeClick_def Let_def)

lemma themeClicks_isDark:
  "themeToggle p = Some b \<Longrightarrow> isDark (themeClicks n p) = (if even n then isDark p else \<not> isDark p)"
proof (induction n)
  case 0
  then show ?case by simp
next
  case (Suc n)
  from themeClicks_toggle [OF Suc.prems, of n]
  obtain b' where "themeToggle (themeClicks n p) = Some b'" by auto
  from themeClick_isDark [OF this] Suc show ?case
    by (simp only: themeClicks_Suc) auto
qed

text \<open>
  Claim C10. On a page with the toggle, starting from a body without the dark-mode class:
  after \<open>n\<close> clicks the body carries the class exactly when \<open>n\<close> is odd, and after every
  click the icon is the moon exactly when the body carries the class, the sun exactly
  when it does not, and the aria-label names the opposite mode. Before the first click the
  icon and label are those of the markup, so they agree then if the markup does.
\<close>

theorem theme_toggle_consistent:
  assumes "themeToggle p = Some b" "\<not> isDark p"
  shows "isDark (themeClicks n p) = odd n
         \<and> (0 < n \<or> themeAgrees p \<longrightarrow> themeAgrees (themeClicks n p))"
proof -
  have d: "isDark (themeClicks n p) = odd n"
    using themeClicks_isDark [OF assms(1), of n] assms(2) by simp
  have a: "themeAgrees (themeClicks n p)" if "0 < n \<or> themeAgrees p"
  proof (cases n)
    case 0
    with that show ?thesis by simp
  next
    case (Suc m)
    from themeClicks_toggle [OF assms(1), of m]
    obtain b' where "themeToggle (themeClicks m p) = Some b'" by auto
    from themeClick_agrees [OF this] Suc show ?thesis
      by (simp only: themeClicks_Suc)
  qed
  from d a show ?thesis by blast
qed

theorem theme_toggle_consistent_witness:
  "themeToggle \<lparr>bodyClasses = [js ''home''], themeToggle = Some \<lparr>textContent = js ''x'', ariaLabel = []\<rparr>\<rparr>
     = Some \<lparr>textContent = js ''x'', ariaLabel = []\<rparr>
   \<and> \<not> isDark \<lparr>bodyClasses = [js ''home''], themeToggle = Some \<lparr>textContent = js ''x'', ariaLabel = []\<rparr>\<rparr>
   \<and> (0::nat) < 3
   \<and> isDark (themeClicks 3 \<lparr>bodyClasses = [js ''home''], themeToggle = Some \<lparr>textContent = js ''x'', ariaLabel = []\<rparr>\<rparr>)
   \<and> themeAgrees (themeClicks 3 \<lparr>bodyClasses = [js ''home''], themeToggle = Some \<lparr>textContent = js ''x'', ariaLabel = []\<rparr>\<rparr>)
   \<and> themeToggle (themeClicks 3 \<lparr>bodyClasses = [js ''home''], themeToggle = Some \<lparr>textContent = js ''x'', ariaLabel = []\<rparr>\<rparr>)
       = Some \<lparr>textContent = moon, ariaLabel = js ''Switch to light mode''\<rparr>"
proof -
  let ?p = "\<lparr>bodyClasses = [js ''home''], themeToggle = Some \<lparr>textContent = js ''x'', ariaLabel = []\<rparr>\<rparr>"
  have nd: "\<not> isDark ?p"
    by (simp add: isDark_def classList_contains_def CLASSES_darkMode_def js_def)
  have t: "themeToggle (themeClicks 3 ?p) = Some \<lparr>textContent = moon, ariaLabel = js ''Switch to light mode''\<rparr>"
    by (simp add: eval_nat_numeral themeClick_def Let_def classList_toggle_def classList_remove_def
        classList_contains_def CLASSES_darkMode_def js_def)
  from theme_toggle_consistent [of ?p _ 3, OF _ nd] t nd show ?thesis
    by simp
qed

section \<open>Properties of the project modal\<close>

lemma trim_Nil: "trim [] = []"
  by (simp add: trim_def)

text \<open>
  Claim C8. When the dialog's title, description, source link and live link elements exist,
  opening the modal for a detail button completes; the live-demo action is hidden
  (\<^verbatim>\<open>display: none\<close>) when the button's live field is absent or empty after trimming, and
  shown (\<^verbatim>\<open>display: inline-block\<close>) with its \<^verbatim>\<open>href\<close> set to the field's value otherwise.
\<close>

theorem modal_live_link:
  assumes "modalTitle p = Some t0" "modalDesc p = Some d0" "modalGithubLink p = Some g0"
    and "modalLiveLink p = Some l"
  shows "\<exists>p' l'. openModal b p = Done p' \<and> modalLiveLink p' = Some l'
           \<and> ((case data_live b of None \<Rightarrow> True | Some u \<Rightarrow> trim u = []) \<longrightarrow>
                 display l' = js ''none'')
           \<and> ((case data_live b of None \<Rightarrow> False | Some u \<Rightarrow> trim u \<noteq> []) \<longrightarrow>
                 display l' = js ''inline-block'' \<and> Some (href l') = data_live b)"
proof (cases "data_live b")
  case None
  with assms show ?thesis
    by (simp add: openModal_def hasLiveLink_def Let_def)
next
  case (Some u)
  show ?thesis
  proof (cases "trim u = []")
    case True
    with Some assms show ?thesis
      by (simp add: openModal_def hasLiveLink_def Let_def)
  next
    case False
    then have "u \<noteq> []" using trim_Nil by auto
    with False Some assms show ?thesis
      by (simp add: openModal_def hasLiveLink_def Let_def asHref_def)
  qed
qed

theorem modal_live_link_witness:
  "openModal \<lparr>data_title = Some (js ''T''), data_desc = Some (js ''D''), data_github = Some (js ''g''),
              data_live = Some (js ''https://x'')\<rparr>
     \<lparr>modal = Some (js ''none''), projectGrid = True, closeModalBtn = True, modalTitle = Some [],
      modalDesc = Some [], modalGithubLink = Some [],
      modalLiveLink = Some \<lparr>href = [], display = js ''none''\<rparr>\<rparr>
   = Done \<lparr>modal = Some (js ''block''), projectGrid = True, closeModalBtn = True,
      modalTitle = Some (js ''T''), modalDesc = Some (js ''D''), modalGithubLink = Some (js ''g''),
      modalLiveLink = Some \<lparr>href = js ''https://x'', display = js ''inline-block''\<rparr>\<rparr>
   \<and> openModal \<lparr>data_title = Some (js ''T''), data_desc = Some (js ''D''), data_github = Some (js ''g''),
              data_live = Some (js '' '')\<rparr>
     \<lparr>modal = Some (js ''none''), projectGrid = True, closeModalBtn = True, modalTitle = Some [],
      modalDesc = Some [], modalGithubLink = Some [],
      modalLiveLink = Some \<lparr>href = js ''old'', display = js ''inline-block''\<rparr>\<rparr>
   = Done \<lparr>modal = Some (js ''block''), projectGrid = True, closeModalBtn = True,
      modalTitle = Some (js ''T''), modalDesc = Some (js ''D''), modalGithubLink = Some (js ''g''),
      modalLiveLink = Some \<lparr>href = js ''old'', display = js ''none''\<rparr>\<rparr>"
proof -
  let ?b1 = "\<lparr>data_title = Some (js ''T''), data_desc = Some (js ''D''), data_github = Some (js ''g''),
              data_live = Some (js ''https://x'')\<rparr>"
  let ?p1 = "\<lparr>modal = Some (js ''none''), projectGrid = True, closeModalBtn = True, modalTitle = Some [],
      modalDesc = Some [], modalGithubLink = Some [],
      modalLiveLink = Some \<lparr>href = [], display = js ''none''\<rparr>\<rparr>"
  let ?b2 = "\<lparr>data_title = Some (js ''T''), data_desc = Some (js ''D''), data_github = Some (js ''g''),
              data_live = Some (js '' '')\<rparr>"
  let ?p2 = "\<lparr>modal = Some (js ''none''), projectGrid = True, closeModalBtn = True, modalTitle = Some [],
      modalDesc = Some [], modalGithubLink = Some [],
      modalLiveLink = Some \<lparr>href = js ''old'', display = js ''inline-block''\<rparr>\<rparr>"
  have t1: "trim (js ''https://x'') \<noteq> []"
    by (simp add: trim_def js_def isWhiteSpace_def)
  have t2: "trim (js '' '') = []"
    by (simp add: trim_def js_def isWhiteSpace_def)
  from modal_live_link [of ?p1 "[]" "[]" "[]" "\<lparr>href = [], display = js ''none''\<rparr>" ?b1] t1
  have 1: "\<exists>p' l'. openModal ?b1 ?p1 = Done p' \<and> modalLiveLink p' = Some l'
     \<and> display l' = js ''inline-block'' \<and> href l' = js ''https://x''"
    by simp
  from modal_live_link [of ?p2 "[]" "[]" "[]" "\<lparr>href = js ''old'', display = js ''inline-block''\<rparr>" ?b2] t2
  have 2: "\<exists>p' l'. openModal ?b2 ?p2 = Done p' \<and> modalLiveLink p' = Some l' \<and> display l' = js ''none''"
    by simp
  from 1 t1 have A: "openModal ?b1 ?p1 = Done \<lparr>modal = Some (js ''block''), projectGrid = True, closeModalBtn = True,
      modalTitle = Some (js ''T''), modalDesc = Some (js ''D''), modalGithubLink = Some (js ''g''),
      modalLiveLink = Some \<lparr>href = js ''https://x'', display = js ''inline-block''\<rparr>\<rparr>"
    by (simp add: openModal_def Let_def hasLiveLink_def asTextContent_def asHref_def)
  from 2 t2 have B: "openModal ?b2 ?p2 = Done \<lparr>modal = Some (js ''block''), projectGrid = True, closeModalBtn = True,
      modalTitle = Some (js ''T''), modalDesc = Some (js ''D''), modalGithubLink = Some (js ''g''),
      modalLiveLink = Some \<lparr>href = js ''old'', display = js ''none''\<rparr>\<rparr>"
    by (simp add: openModal_def Let_def hasLiveLink_def asTextContent_def asHref_def)
  from A B show ?thesis by (rule conjI)
qed

section \<open>Missing elements\<close>

text \<open>
  Claim C3. The claim is that a handler does nothing and raises nothing when an element it
  expects is absent. The handlers do not all guard: a click on an anchor whose target is not
  on the page throws a \<^verbatim>\<open>TypeError\<close> before the open mobile menu is closed (a \<^verbatim>\<open>SyntaxError\<close> when
  the \<^verbatim>\<open>href\<close> is no selector at all), and a submission of a form without a submit button
  throws a \<^verbatim>\<open>TypeError\<close> before the request is made.
\<close>

theorem missing_element_throws:
  "smoothScrollClick NoMatch
     \<lparr>navLinks = Some [js ''nav-links'', js ''active''], hamburger = Some [js ''hamburger'', js ''toggle''],
      scrolledTo = None\<rparr>
   = Threw TypeError
     \<lparr>navLinks = Some [js ''nav-links'', js ''active''], hamburger = Some [js ''hamburger'', js ''toggle''],
      scrolledTo = None\<rparr>
   \<and> smoothScrollClick InvalidSelector
     \<lparr>navLinks = Some [js ''nav-links'', js ''active''], hamburger = Some [js ''hamburger'', js ''toggle''],
      scrolledTo = None\<rparr>
   = Threw SyntaxError
     \<lparr>navLinks = Some [js ''nav-links'', js ''active''], hamburger = Some [js ''hamburger'', js ''toggle''],
      scrolledTo = None\<rparr>
   \<and> submitStart
     \<lparr>formFields = [\<lparr>fieldValue = js ''hi'', defaultValue = []\<rparr>], submitButton = None,
      statusText = [], statusColor = [], clock = 0, clearTimers = []\<rparr>
   = Threw TypeError
     \<lparr>formFields = [\<lparr>fieldValue = js ''hi'', defaultValue = []\<rparr>], submitButton = None,
      statusText = [], statusColor = [], clock = 0, clearTimers = []\<rparr>"
  by (simp add: smoothScrollClick_def submitStart_def)

section \<open>Properties of the project filter\<close>

lemma starts_with_iff: "starts_with hay needle = (\<exists>suf. hay = needle @ suf)"
  by (induction hay needle rule: starts_with.induct) auto

lemma js_includes_iff: "js_includes hay needle = (\<exists>pre suf. hay = pre @ needle @ suf)"
proof (induction hay)
  case Nil
  then show ?case by auto
next
  case (Cons h hs)
  show ?case
  proof
    assume "js_includes (h # hs) needle"
    then consider "starts_with (h # hs) needle" | "js_includes hs needle" by auto
    then show "\<exists>pre suf. h # hs = pre @ needle @ suf"
    proof cases
      case 1
      then obtain suf where "h # hs = needle @ suf" by (auto simp: starts_with_iff)
      then have "h # hs = [] @ needle @ suf" by simp
      then show ?thesis by blast
    next
      case 2
      with Cons obtain pre suf where "hs = pre @ needle @ suf" by auto
      then have "h # hs = (h # pre) @ needle @ suf" by simp
      then show ?thesis by blast
    qed
  next
    assume "\<exists>pre suf. h # hs = pre @ needle @ suf"
    then obtain pre suf where e: "h # hs = pre @ needle @ suf" by blast
    show "js_includes (h # hs) needle"
    proof (cases pre)
      case Nil
      with e have "starts_with (h # hs) needle" by (auto simp: starts_with_iff)
      then show ?thesis by simp
    next
      case (Cons a pre')
      with e have "hs = pre' @ needle @ suf" by simp
      with Cons.IH have "js_includes hs needle" by blast
      then show ?thesis by simp
    qed
  qed
qed

lemma shown_toggle_force:
  "shown (c\<lparr>card_classes := classList_toggle_force CLASSES_hide (\<not> v) (card_classes c)\<rparr>) = v"
  by (auto simp: shown_def classList_toggle_force_def classList_add_def classList_remove_def
      classList_contains_def)

lemma filterCards_all:
  "filterCards (Some (js ''all'')) cs =
     (map (\<lambda>c. c\<lparr>card_classes := classList_toggle_force CLASSES_hide False (card_classes c)\<rparr>) cs, None)"
  by (induction cs) (auto simp: isVisible_def)

lemma filterCards_categories:
  "list_all (\<lambda>c. data_category c \<noteq> None) cs \<Longrightarrow>
   filterCards (Some f) cs =
     (map (\<lambda>c. c\<lparr>card_classes := classList_toggle_force CLASSES_hide
              (\<not> (f = js ''all'' \<or> js_includes (the (data_category c)) f)) (card_classes c)\<rparr>) cs, None)"
  by (induction cs) (auto simp: isVisible_def)

lemma removeFirstActive_length: "length (removeFirstActive es) = length es"
  by (induction es) auto

lemma removeFirstActive_data_filter:
  "i < length es \<Longrightarrow> data_filter (removeFirstActive es ! i) = data_filter (es ! i)"
  by (induction es arbitrary: i) (auto simp: nth_Cons split: nat.splits)

lemma filterCards_no_category:
  "data_category c = None \<Longrightarrow> fv \<noteq> Some (js ''all'') \<Longrightarrow>
   filterCards fv (c # cs) = (c # cs, Some TypeError)"
  by (simp add: isVisible_def)

lemma filterClick_cards:
  assumes "targetElement tgt p = Some e"
    and "classList_contains (js ''filter-btn'') (fe_classes e)"
    and "data_filter e = Some f"
    and "filterCards (Some f) (cards p) = (cs, None)"
  shows "\<exists>p'. filterClick tgt p = Done p' \<and> cards p' = cs"
proof (cases tgt)
  case Container
  with assms show ?thesis
    by (simp add: filterClick_def targetElement_def addActive_def Let_def)
next
  case (Descendant i)
  with assms(1) have i: "i < length (filterElements p)" and e: "e = filterElements p ! i"
    by (auto simp: targetElement_def split: if_splits)
  with assms(2,3,4) Descendant show ?thesis
    by (simp add: filterClick_def targetElement_def addActive_def Let_def
        removeFirstActive_length removeFirstActive_data_filter)
qed

lemma filterClick_on_container:
  "filterClick Container
      \<lparr>filterContainer = \<lparr>fe_classes = [js ''filter-btn''], data_filter = Some (js ''all'')\<rparr>,
       filterElements = [\<lparr>fe_classes = [js ''active''], data_filter = None\<rparr>],
       cards = [\<lparr>card_classes = [js ''project-card'', js ''hide''], data_category = None\<rparr>]\<rparr>
     = Done
      \<lparr>filterContainer = \<lparr>fe_classes = [js ''filter-btn'', js ''active''], data_filter = Some (js ''all'')\<rparr>,
       filterElements = [\<lparr>fe_classes = [], data_filter = None\<rparr>],
       cards = [\<lparr>card_classes = [js ''project-card''], data_category = None\<rparr>]\<rparr>"
  by (simp add: filterClick_def targetElement_def addActive_def Let_def isVisible_def
        classList_contains_def classList_add_def classList_remove_def classList_toggle_force_def
        CLASSES_active_def CLASSES_hide_def js_def)

text \<open>
  Claim C2, as the code has it. Take a click whose target element carries the class
  \<^verbatim>\<open>filter-btn\<close> and a filter value \<open>f\<close>, where \<open>f\<close> is \<^verbatim>\<open>all\<close> or every project card carries a
  category. The handler completes, and afterwards a card is shown exactly when \<open>f\<close> is
  \<^verbatim>\<open>all\<close> or \<open>f\<close> occurs in the card's category string as a substring. With \<^verbatim>\<open>all\<close> every card
  is shown, with or without category. (A card without category under another filter value
  makes the handler throw; the statement is about the pages where that does not happen.)
\<close>

theorem filter_visibility:
  assumes "targetElement tgt p = Some e"
    and "classList_contains (js ''filter-btn'') (fe_classes e)"
    and "data_filter e = Some f"
    and "f = js ''all'' \<or> list_all (\<lambda>c. data_category c \<noteq> None) (cards p)"
  shows "\<exists>p'. filterClick tgt p = Done p' \<and> length (cards p') = length (cards p)
           \<and> (\<forall>k < length (cards p).
                 data_category (cards p' ! k) = data_category (cards p ! k)
                 \<and> shown (cards p' ! k) =
                     (f = js ''all'' \<or> (\<exists>pre suf. data_category (cards p ! k) = Some (pre @ f @ suf))))"
proof (cases "f = js ''all''")
  case True
  from filterClick_cards [OF assms(1,2,3)] filterCards_all [of "cards p"] True
  obtain p' where p': "filterClick tgt p = Done p'"
    "cards p' = map (\<lambda>c. c\<lparr>card_classes := classList_toggle_force CLASSES_hide False (card_classes c)\<rparr>) (cards p)"
    by auto
  have "shown (cards p' ! k)" "data_category (cards p' ! k) = data_category (cards p ! k)"
    if "k < length (cards p)" for k
    using that p'(2) shown_toggle_force [where c = "cards p ! k" and v = True] by auto
  with p' True show ?thesis by auto
next
  case False
  with assms(4) have cats: "list_all (\<lambda>c. data_category c \<noteq> None) (cards p)" by simp
  from filterClick_cards [OF assms(1,2,3)] filterCards_categories [OF cats, of f] False
  obtain p' where p': "filterClick tgt p = Done p'"
    "cards p' = map (\<lambda>c. c\<lparr>card_classes := classList_toggle_force CLASSES_hide
              (\<not> js_includes (the (data_category c)) f) (card_classes c)\<rparr>) (cards p)"
    by auto
  have "shown (cards p' ! k) = (\<exists>pre suf. data_category (cards p ! k) = Some (pre @ f @ suf))"
    "data_category (cards p' ! k) = data_category (cards p ! k)"
    if "k < length (cards p)" for k
  proof -
    from that cats obtain cat where cat: "data_category (cards p ! k) = Some cat"
      by (auto simp: list_all_length)
    from that p'(2) have "shown (cards p' ! k) = js_includes cat f"
      using shown_toggle_force [where c = "cards p ! k" and v = "js_includes cat f"] cat by simp
    with cat show "shown (cards p' ! k) = (\<exists>pre suf. data_category (cards p ! k) = Some (pre @ f @ suf))"
      by (simp add: js_includes_iff)
    from that p'(2) show "data_category (cards p' ! k) = data_category (cards p ! k)" by simp
  qed
  with p' False show ?thesis by auto
qed

theorem filter_visibility_witness:
  "targetElement (Descendant 1) 
      \<lparr>filterContainer = \<lparr>fe_classes = [js ''filter-buttons''], data_filter = None\<rparr>,
       filterElements = [\<lparr>fe_classes = [js ''filter-btn'', js ''active''], data_filter = Some (js ''all'')\<rparr>,
                         \<lparr>fe_classes = [js ''filter-btn''], data_filter = Some (js ''web'')\<rparr>],
       cards = [\<lparr>card_classes = [js ''project-card''], data_category = Some (js ''web design'')\<rparr>,
                \<lparr>card_classes = [js ''project-card''], data_category = Some (js ''mobile'')\<rparr>]\<rparr>
     = Some \<lparr>fe_classes = [js ''filter-btn''], data_filter = Some (js ''web'')\<rparr>
   \<and> classList_contains (js ''filter-btn'') [js ''filter-btn'']
   \<and> list_all (\<lambda>c. data_category c \<noteq> None) (cards 
      \<lparr>filterContainer = \<lparr>fe_classes = [js ''filter-buttons''], data_filter = None\<rparr>,
       filterElements = [\<lparr>fe_classes = [js ''filter-btn'', js ''active''], data_filter = Some (js ''all'')\<rparr>,
                         \<lparr>fe_classes = [js ''filter-btn''], data_filter = Some (js ''web'')\<rparr>],
       cards = [\<lparr>card_classes = [js ''project-card''], data_category = Some (js ''web design'')\<rparr>,
                \<lparr>card_classes = [js ''project-card''], data_category = Some (js ''mobile'')\<rparr>]\<rparr>)
   \<and> filterClick (Descendant 1) 
      \<lparr>filterContainer = \<lparr>fe_classes = [js ''filter-buttons''], data_filter = None\<rparr>,
       filterElements = [\<lparr>fe_classes = [js ''filter-btn'', js ''active''], data_filter = Some (js ''all'')\<rparr>,
                         \<lparr>fe_classes = [js ''filter-btn''], data_filter = Some (js ''web'')\<rparr>],
       cards = [\<lparr>card_classes = [js ''project-card''], data_category = Some (js ''web design'')\<rparr>,
                \<lparr>card_classes = [js ''project-card''], data_category = Some (js ''mobile'')\<rparr>]\<rparr>
     = Done 
      \<lparr>filterContainer = \<lparr>fe_classes = [js ''filter-buttons''], data_filter = None\<rparr>,
       filterElements = [\<lparr>fe_classes = [js ''filter-btn''], data_filter = Some (js ''all'')\<rparr>,
                         \<lparr>fe_classes = [js ''filter-btn'', js ''active''], data_filter = Some (js ''web'')\<rparr>],
       cards = [\<lparr>card_classes = [js ''project-card''], data_category = Some (js ''web design'')\<rparr>,
                \<lparr>card_classes = [js ''project-card'', js ''hide''], data_category = Some (js ''mobile'')\<rparr>]\<rparr>
   \<and> shown \<lparr>card_classes = [js ''project-card''], data_category = Some (js ''web design'')\<rparr>
   \<and> \<not> shown \<lparr>card_classes = [js ''project-card'', js ''hide''], data_category = Some (js ''mobile'')\<rparr>"
proof -
  let ?p = "
      \<lparr>filterContainer = \<lparr>fe_classes = [js ''filter-buttons''], data_filter = None\<rparr>,
       filterElements = [\<lparr>fe_classes = [js ''filter-btn'', js ''active''], data_filter = Some (js ''all'')\<rparr>,
                         \<lparr>fe_classes = [js ''filter-btn''], data_filter = Some (js ''web'')\<rparr>],
       cards = [\<lparr>card_classes = [js ''project-card''], data_category = Some (js ''web design'')\<rparr>,
                \<lparr>card_classes = [js ''project-card''], data_category = Some (js ''mobile'')\<rparr>]\<rparr>"
  let ?e = "\<lparr>fe_classes = [js ''filter-btn''], data_filter = Some (js ''web'')\<rparr>"
  have h1: "targetElement (Descendant 1) ?p = Some ?e" by (simp add: targetElement_def)
  have h2: "classList_contains (js ''filter-btn'') (fe_classes ?e)"
    by (simp add: classList_contains_def)
  have h3: "data_filter ?e = Some (js ''web'')" by simp
  have h4: "js ''web'' = js ''all'' \<or> list_all (\<lambda>c. data_category c \<noteq> None) (cards ?p)" by simp
  from filter_visibility [OF h1 h2 h3 h4]
  obtain p' where p': "filterClick (Descendant 1) ?p = Done p'" by blast
  have r: "filterClick (Descendant 1) ?p = Done 
      \<lparr>filterContainer = \<lparr>fe_classes = [js ''filter-buttons''], data_filter = None\<rparr>,
       filterElements = [\<lparr>fe_classes = [js ''filter-btn''], data_filter = Some (js ''all'')\<rparr>,
                         \<lparr>fe_classes = [js ''filter-btn'', js ''active''], data_filter = Some (js ''web'')\<rparr>],
       cards = [\<lparr>card_classes = [js ''project-card''], data_category = Some (js ''web design'')\<rparr>,
                \<lparr>card_classes = [js ''project-card'', js ''hide''], data_category = Some (js ''mobile'')\<rparr>]\<rparr>"
    using p'
    by (simp add: filterClick_def targetElement_def addActive_def Let_def isVisible_def
        classList_contains_def classList_add_def classList_remove_def classList_toggle_force_def
        CLASSES_active_def CLASSES_hide_def js_def)
  have s: "shown \<lparr>card_classes = [js ''project-card''], data_category = Some (js ''web design'')\<rparr>
     \<and> \<not> shown \<lparr>card_classes = [js ''project-card'', js ''hide''], data_category = Some (js ''mobile'')\<rparr>"
    by (simp add: shown_def classList_contains_def CLASSES_hide_def js_def)
  from h1 h2 h4 r s show ?thesis by simp
qed

text \<open>
  The rule read over a set of tags differs from the substring test: under the filter value
  \<^verbatim>\<open>web\<close> the code shows a card of category \<^verbatim>\<open>website\<close>, whose only tag is not \<^verbatim>\<open>web\<close>.
\<close>

theorem filter_tag_set_counterexample:
  "filterClick (Descendant 0)
      \<lparr>filterContainer = \<lparr>fe_classes = [js ''filter-buttons''], data_filter = None\<rparr>,
       filterElements = [\<lparr>fe_classes = [js ''filter-btn''], data_filter = Some (js ''web'')\<rparr>],
       cards = [\<lparr>card_classes = [js ''project-card'', js ''hide''], data_category = Some (js ''website'')\<rparr>]\<rparr>
     = Done
      \<lparr>filterContainer = \<lparr>fe_classes = [js ''filter-buttons''], data_filter = None\<rparr>,
       filterElements = [\<lparr>fe_classes = [js ''filter-btn'', js ''active''], data_filter = Some (js ''web'')\<rparr>],
       cards = [\<lparr>card_classes = [js ''project-card''], data_category = Some (js ''website'')\<rparr>]\<rparr>
   \<and> shown \<lparr>card_classes = [js ''project-card''], data_category = Some (js ''website'')\<rparr>
   \<and> category_tags (js ''website'') = [js ''website'']
   \<and> \<not> spec_visible (js ''web'') (js ''website'')"
  by (simp add: filterClick_def targetElement_def addActive_def Let_def isVisible_def
        classList_contains_def classList_add_def
        classList_remove_def classList_toggle_force_def CLASSES_active_def CLASSES_hide_def js_def
        shown_def spec_visible_def category_tags_def isWhiteSpace_def)

section \<open>Properties of the contact form\<close>

lemma join_strings: "join sep (map JStr ms) = Inr (joinStrings sep ms)"
  by (induction sep ms rule: joinStrings.induct) auto

lemma mapMessage_strings:
  "list_all2 hasMessage errs msgs \<Longrightarrow> mapMessage errs = Inr (map JStr msgs)"
proof (induction errs msgs rule: list_all2_induct)
  case Nil
  then show ?case by simp
next
  case (Cons e es m ms)
  then show ?case by (cases e) (auto simp: hasMessage_def)
qed

lemma errorMessage_list:
  assumes "map_of ps (js ''errors'') = Some (JArr errs)" "list_all2 hasMessage errs msgs"
  shows "errorMessage (JObj ps) = Inr (joinStrings (js '', '') msgs)"
  using assms by (simp add: errorMessage_def mapMessage_strings join_strings)

lemma getProp_errors: "data \<noteq> JNull \<Longrightarrow> getProp data (js ''errors'') = Inr (errorsField data)"
  by (cases data) simp_all

lemma errorMessage_null: "errorMessage JNull = Inl TypeError"
  by (simp add: errorMessage_def)

lemma errorsField_truthy: "truthy (errorsField data) \<Longrightarrow> data \<noteq> JNull"
  by (cases data) simp_all

lemma errorMessage_absent:
  assumes "getProp data (js ''errors'') = Inr v" "\<not> truthy v"
  shows "errorMessage data = Inr genericFailure"
  using assms by (simp add: errorMessage_def)

lemma errorMessage_no_list:
  assumes "getProp data (js ''errors'') = Inr w" "truthy w" "\<not> isArray w"
  shows "errorMessage data = Inl TypeError"
  using assms by (cases w rule: isArray.cases) (simp_all add: errorMessage_def)

lemma settle_button:
  "submitButton (submitSettle oc p) =
     map_option (\<lambda>b. b\<lparr>disabled := False, label := js ''Kirim Pesan''\<rparr>) (submitButton p)"
  by (auto simp: submitSettle_def tryBody_def Let_def
      split: sum.splits fetch_outcome.splits body.splits)

lemma settle_timers:
  "clearTimers (submitSettle oc p) = clearTimers p @ [clock p + formStatusClear]
   \<and> clock (submitSettle oc p) = clock p"
  by (auto simp: submitSettle_def tryBody_def Let_def
      split: sum.splits fetch_outcome.splits body.splits)

lemma settle_failure:
  "\<not> response_ok status \<Longrightarrow>
   statusText (submitSettle (Response status (Parsed data)) p)
     = (case errorMessage data of Inl e \<Rightarrow> connectionFailure | Inr m \<Rightarrow> m)
   \<and> statusColor (submitSettle (Response status (Parsed data)) p) = js ''red''"
  by (auto simp: submitSettle_def tryBody_def Let_def split: sum.splits)

lemma settle_malformed:
  "\<not> response_ok status \<Longrightarrow>
   statusText (submitSettle (Response status Malformed) p) = connectionFailure
   \<and> statusColor (submitSettle (Response status Malformed) p) = js ''red''"
  by (auto simp: submitSettle_def tryBody_def Let_def split: sum.splits)

lemma advance_due:
  assumes "d \<in> set (clearTimers p)" "d \<le> t" "clock p \<le> t"
  shows "statusText (advance t p) = []"
proof -
  from assms(1,2) have "d \<in> set (filter (\<lambda>d. d \<le> t) (clearTimers p))" by simp
  then have "filter (\<lambda>d. d \<le> t) (clearTimers p) \<noteq> []" by (metis empty_iff empty_set)
  with assms(3) show ?thesis by (simp add: advance_def)
qed

text \<open>
  Claim C1, as the code has it. After a response with a failure status the status text is
  red, and it is: the messages joined with \<^verbatim>\<open>", "\<close> when the body is an object whose \<^verbatim>\<open>errors\<close>
  is a list of objects with string messages; the generic failure message when the body
  parses to a value other than \<^verbatim>\<open>null\<close> whose \<^verbatim>\<open>errors\<close> is absent or falsy; the connection
  failure message when the body does not parse, when it parses to \<^verbatim>\<open>null\<close>, and when it parses
  to a value whose \<^verbatim>\<open>errors\<close> is truthy and no list.
\<close>

theorem failure_status_text:
  assumes "\<not> response_ok status"
  shows "(map_of ps (js ''errors'') = Some (JArr errs) \<and> list_all2 hasMessage errs msgs \<longrightarrow>
            statusText (submitSettle (Response status (Parsed (JObj ps))) p) = joinStrings (js '', '') msgs
            \<and> statusColor (submitSettle (Response status (Parsed (JObj ps))) p) = js ''red'')
       \<and> (data \<noteq> JNull \<and> \<not> truthy (errorsField data) \<longrightarrow>
            statusText (submitSettle (Response status (Parsed data)) p) = genericFailure
            \<and> statusColor (submitSettle (Response status (Parsed data)) p) = js ''red'')
       \<and> statusText (submitSettle (Response status Malformed) p) = connectionFailure
       \<and> statusColor (submitSettle (Response status Malformed) p) = js ''red''
       \<and> statusText (submitSettle (Response status (Parsed JNull)) p) = connectionFailure
       \<and> statusColor (submitSettle (Response status (Parsed JNull)) p) = js ''red''
       \<and> (truthy (errorsField data') \<and> \<not> isArray (errorsField data') \<longrightarrow>
            statusText (submitSettle (Response status (Parsed data')) p) = connectionFailure
            \<and> statusColor (submitSettle (Response status (Parsed data')) p) = js ''red'')"
proof -
  have 1: "statusText (submitSettle (Response status (Parsed (JObj ps))) p) = joinStrings (js '', '') msgs
            \<and> statusColor (submitSettle (Response status (Parsed (JObj ps))) p) = js ''red''"
    if "map_of ps (js ''errors'') = Some (JArr errs)" "list_all2 hasMessage errs msgs"
    using settle_failure [OF assms, of "JObj ps" p] errorMessage_list [OF that] by simp
  have 2: "statusText (submitSettle (Response status (Parsed data)) p) = genericFailure
            \<and> statusColor (submitSettle (Response status (Parsed data)) p) = js ''red''"
    if "data \<noteq> JNull" "\<not> truthy (errorsField data)"
    using settle_failure [OF assms, of data p]
      errorMessage_absent [OF getProp_errors [OF that(1)] that(2)] by simp
  have 3: "statusText (submitSettle (Response status Malformed) p) = connectionFailure
       \<and> statusColor (submitSettle (Response status Malformed) p) = js ''red''"
    using settle_malformed [OF assms, of p] .
  have 4: "statusText (submitSettle (Response status (Parsed JNull)) p) = connectionFailure
       \<and> statusColor (submitSettle (Response status (Parsed JNull)) p) = js ''red''"
    using settle_failure [OF assms, of JNull p] errorMessage_null by simp
  have 5: "statusText (submitSettle (Response status (Parsed data')) p) = connectionFailure
            \<and> statusColor (submitSettle (Response status (Parsed data')) p) = js ''red''"
    if "truthy (errorsField data')" "\<not> isArray (errorsField data')"
    using settle_failure [OF assms, of data' p]
      errorMessage_no_list [OF getProp_errors [OF errorsField_truthy [OF that(1)]] that] by simp
  from 1 2 3 4 5 show ?thesis by blast
qed

theorem failure_status_text_witness:
  "\<not> response_ok 422
   \<and> statusText (submitSettle (Response 422 (Parsed (JObj [(js ''errors'', JArr [JObj [(js ''message'', JStr (js ''Email required''))]])])))
       \<lparr>formFields = [\<lparr>fieldValue = js ''hi'', defaultValue = []\<rparr>],
      submitButton = Some \<lparr>disabled = True, label = js ''Mengirim...''\<rparr>,
      statusText = [], statusColor = [], clock = 1000, clearTimers = []\<rparr>) = js ''Email required''
   \<and> statusColor (submitSettle (Response 422 (Parsed (JObj [(js ''errors'', JArr [JObj [(js ''message'', JStr (js ''Email required''))]])])))
       \<lparr>formFields = [\<lparr>fieldValue = js ''hi'', defaultValue = []\<rparr>],
      submitButton = Some \<lparr>disabled = True, label = js ''Mengirim...''\<rparr>,
      statusText = [], statusColor = [], clock = 1000, clearTimers = []\<rparr>) = js ''red''
   \<and> statusText (submitSettle (Response 422 (Parsed (JObj [])))
       \<lparr>formFields = [\<lparr>fieldValue = js ''hi'', defaultValue = []\<rparr>],
      submitButton = Some \<lparr>disabled = True, label = js ''Mengirim...''\<rparr>,
      statusText = [], statusColor = [], clock = 1000, clearTimers = []\<rparr>) = genericFailure
   \<and> statusText (submitSettle (Response 422 Malformed)
       \<lparr>formFields = [\<lparr>fieldValue = js ''hi'', defaultValue = []\<rparr>],
      submitButton = Some \<lparr>disabled = True, label = js ''Mengirim...''\<rparr>,
      statusText = [], statusColor = [], clock = 1000, clearTimers = []\<rparr>) = connectionFailure
   \<and> statusText (submitSettle (Response 422 (Parsed (JObj [(js ''errors'', JStr (js ''bad''))])))
       \<lparr>formFields = [\<lparr>fieldValue = js ''hi'', defaultValue = []\<rparr>],
      submitButton = Some \<lparr>disabled = True, label = js ''Mengirim...''\<rparr>,
      statusText = [], statusColor = [], clock = 1000, clearTimers = []\<rparr>) = connectionFailure
   \<and> statusText (submitSettle (Response 422 (Parsed JNull))
       \<lparr>formFields = [\<lparr>fieldValue = js ''hi'', defaultValue = []\<rparr>],
      submitButton = Some \<lparr>disabled = True, label = js ''Mengirim...''\<rparr>,
      statusText = [], statusColor = [], clock = 1000, clearTimers = []\<rparr>) = connectionFailure"
proof -
  let ?p = "\<lparr>formFields = [\<lparr>fieldValue = js ''hi'', defaultValue = []\<rparr>],
      submitButton = Some \<lparr>disabled = True, label = js ''Mengirim...''\<rparr>,
      statusText = [], statusColor = [], clock = 1000, clearTimers = []\<rparr>"
  let ?errs = "[JObj [(js ''message'', JStr (js ''Email required''))]]"
  have h: "\<not> response_ok 422" by (simp add: response_ok_def)
  have a: "map_of [(js ''errors'', JArr ?errs)] (js ''errors'') = Some (JArr ?errs)" by simp
  have b: "list_all2 hasMessage ?errs [js ''Email required'']" by (simp add: hasMessage_def)
  have c: "JObj [] \<noteq> JNull" by simp
  have d: "\<not> truthy (errorsField (JObj []))" by simp
  let ?bad = "JObj [(js ''errors'', JStr (js ''bad''))]"
  have f: "truthy (errorsField ?bad)" by (simp add: js_def)
  have g: "\<not> isArray (errorsField ?bad)" by simp
  from failure_status_text [OF h, of "[(js ''errors'', JArr ?errs)]" ?errs "[js ''Email required'']"
      ?p "JObj []" ?bad] h a b c d f g
  show ?thesis by simp
qed

text \<open>
  A failure response whose body does not parse ends in the \<^verbatim>\<open>catch\<close> block: the text is the
  connection failure message, not the generic one. So does one whose body is \<^verbatim>\<open>null\<close>, which
  has no \<^verbatim>\<open>errors\<close> list either: reading \<^verbatim>\<open>data.errors\<close> throws.
\<close>

theorem malformed_body_counterexample:
  "\<not> response_ok 500
   \<and> statusText (submitSettle (Response 500 Malformed)
       \<lparr>formFields = [\<lparr>fieldValue = js ''hi'', defaultValue = []\<rparr>],
      submitButton = Some \<lparr>disabled = True, label = js ''Mengirim...''\<rparr>,
      statusText = [], statusColor = [], clock = 1000, clearTimers = []\<rparr>) = connectionFailure
   \<and> statusText (submitSettle (Response 500 (Parsed JNull))
       \<lparr>formFields = [\<lparr>fieldValue = js ''hi'', defaultValue = []\<rparr>],
      submitButton = Some \<lparr>disabled = True, label = js ''Mengirim...''\<rparr>,
      statusText = [], statusColor = [], clock = 1000, clearTimers = []\<rparr>) = connectionFailure
   \<and> connectionFailure \<noteq> genericFailure"
  by (simp add: submitSettle_def tryBody_def submitStart_def response_ok_def Let_def form_reset_def formStatusClear_def
      errorMessage_def connectionFailure_def genericFailure_def js_def)

text \<open>
  Claim C6, as the code has it. After a response with a success status the status text is
  the success message in green, every field holds its default value (so is empty where
  the markup gives none), and the submit button is enabled again and carries the fixed
  label \<^verbatim>\<open>Kirim Pesan\<close>, all in the one turn that handles the response.
\<close>

theorem success_path:
  assumes "response_ok status" "submitStart p0 = Done p"
  shows "statusText (submitSettle (Response status b) p) = successMessage
       \<and> statusColor (submitSettle (Response status b) p) = js ''green''
       \<and> formFields (submitSettle (Response status b) p)
            = map (\<lambda>f. f\<lparr>fieldValue := defaultValue f\<rparr>) (formFields p0)
       \<and> (list_all (\<lambda>f. defaultValue f = []) (formFields p0) \<longrightarrow>
            list_all (\<lambda>f. fieldValue f = []) (formFields (submitSettle (Response status b) p)))
       \<and> (\<exists>sb. submitButton (submitSettle (Response status b) p) = Some sb
                \<and> \<not> disabled sb \<and> label sb = js ''Kirim Pesan'')"
proof -
  from assms(2) obtain sb where sb: "submitButton p = Some sb" and f: "formFields p = formFields p0"
    by (auto simp: submitStart_def split: option.splits)
  have 1: "statusText (submitSettle (Response status b) p) = successMessage"
    and 2: "statusColor (submitSettle (Response status b) p) = js ''green''"
    and 3: "formFields (submitSettle (Response status b) p)
            = map (\<lambda>f. f\<lparr>fieldValue := defaultValue f\<rparr>) (formFields p0)"
    using assms(1) f by (simp_all add: submitSettle_def tryBody_def Let_def form_reset_def)
  from 3 have 4: "list_all (\<lambda>f. defaultValue f = []) (formFields p0) \<longrightarrow>
            list_all (\<lambda>f. fieldValue f = []) (formFields (submitSettle (Response status b) p))"
    by (simp add: list_all_iff)
  from sb have 5: "\<exists>sb. submitButton (submitSettle (Response status b) p) = Some sb
                \<and> \<not> disabled sb \<and> label sb = js ''Kirim Pesan''"
    by (simp add: settle_button)
  from 1 2 3 4 5 show ?thesis by blast
qed

theorem success_path_witness:
  "response_ok 200
   \<and> submitStart \<lparr>formFields = [\<lparr>fieldValue = js ''hi'', defaultValue = []\<rparr>],
      submitButton = Some \<lparr>disabled = False, label = js ''Kirim Pesan''\<rparr>,
      statusText = [], statusColor = [], clock = 1000, clearTimers = []\<rparr>
     = Done \<lparr>formFields = [\<lparr>fieldValue = js ''hi'', defaultValue = []\<rparr>],
      submitButton = Some \<lparr>disabled = True, label = js ''Mengirim...''\<rparr>,
      statusText = [], statusColor = [], clock = 1000, clearTimers = []\<rparr>
   \<and> submitSettle (Response 200 (Parsed JNull)) \<lparr>formFields = [\<lparr>fieldValue = js ''hi'', defaultValue = []\<rparr>],
      submitButton = Some \<lparr>disabled = True, label = js ''Mengirim...''\<rparr>,
      statusText = [], statusColor = [], clock = 1000, clearTimers = []\<rparr>
     = \<lparr>formFields = [\<lparr>fieldValue = [], defaultValue = []\<rparr>],
      submitButton = Some \<lparr>disabled = False, label = js ''Kirim Pesan''\<rparr>,
      statusText = successMessage, statusColor = js ''green'', clock = 1000, clearTimers = [7000]\<rparr>"
proof -
  let ?p0 = "\<lparr>formFields = [\<lparr>fieldValue = js ''hi'', defaultValue = []\<rparr>],
      submitButton = Some \<lparr>disabled = False, label = js ''Kirim Pesan''\<rparr>,
      statusText = [], statusColor = [], clock = 1000, clearTimers = []\<rparr>"
  let ?p1 = "\<lparr>formFields = [\<lparr>fieldValue = js ''hi'', defaultValue = []\<rparr>],
      submitButton = Some \<lparr>disabled = True, label = js ''Mengirim...''\<rparr>,
      statusText = [], statusColor = [], clock = 1000, clearTimers = []\<rparr>"
  have h: "response_ok 200" by (simp add: response_ok_def)
  have s: "submitStart ?p0 = Done ?p1" by (simp add: submitStart_def)
  from success_path [OF h s, of "Parsed JNull"]
  have "submitSettle (Response 200 (Parsed JNull)) ?p1 = \<lparr>formFields = [\<lparr>fieldValue = [], defaultValue = []\<rparr>],
      submitButton = Some \<lparr>disabled = False, label = js ''Kirim Pesan''\<rparr>,
      statusText = successMessage, statusColor = js ''green'', clock = 1000, clearTimers = [7000]\<rparr>"
    by (simp add: submitSettle_def tryBody_def Let_def formStatusClear_def form_reset_def h)
  with h s show ?thesis by simp
qed

text \<open>
  A field with a default value is reset to it, not emptied, and a button that read
  \<^verbatim>\<open>Send\<close> before the submission reads \<^verbatim>\<open>Kirim Pesan\<close> after it.
\<close>

theorem success_reset_counterexample:
  "response_ok 200
   \<and> submitStart \<lparr>formFields = [\<lparr>fieldValue = js ''hello'', defaultValue = js ''subject''\<rparr>],
      submitButton = Some \<lparr>disabled = False, label = js ''Send''\<rparr>,
      statusText = [], statusColor = [], clock = 1000, clearTimers = []\<rparr>
     = Done \<lparr>formFields = [\<lparr>fieldValue = js ''hello'', defaultValue = js ''subject''\<rparr>],
      submitButton = Some \<lparr>disabled = True, label = js ''Mengirim...''\<rparr>,
      statusText = [], statusColor = [], clock = 1000, clearTimers = []\<rparr>
   \<and> submitSettle (Response 200 (Parsed JNull)) \<lparr>formFields = [\<lparr>fieldValue = js ''hello'', defaultValue = js ''subject''\<rparr>],
      submitButton = Some \<lparr>disabled = True, label = js ''Mengirim...''\<rparr>,
      statusText = [], statusColor = [], clock = 1000, clearTimers = []\<rparr>
     = \<lparr>formFields = [\<lparr>fieldValue = js ''subject'', defaultValue = js ''subject''\<rparr>],
      submitButton = Some \<lparr>disabled = False, label = js ''Kirim Pesan''\<rparr>,
      statusText = successMessage, statusColor = js ''green'', clock = 1000, clearTimers = [7000]\<rparr>
   \<and> js ''subject'' \<noteq> []
   \<and> js ''Kirim Pesan'' \<noteq> js ''Send''"
  by (simp add: submitSettle_def tryBody_def submitStart_def response_ok_def Let_def form_reset_def formStatusClear_def js_def)

text \<open>
  Claim C7, as the code has it. Whatever the outcome of a started submission, the handler
  enables the submit button, sets its label to the fixed \<^verbatim>\<open>Kirim Pesan\<close>, and schedules one
  clear timer 6000 ms after the current time; with no other event, the status text is empty
  at that time and at any later one.
\<close>

theorem status_cleared:
  assumes "submitStart p0 = Done p"
  shows "(\<exists>b. submitButton (submitSettle oc p) = Some b \<and> \<not> disabled b \<and> label b = js ''Kirim Pesan'')
       \<and> clearTimers (submitSettle oc p) = clearTimers p @ [clock p + 6000]
       \<and> clock (submitSettle oc p) = clock p
       \<and> (\<forall>t. clock p + 6000 \<le> t \<longrightarrow> statusText (advance t (submitSettle oc p)) = [])"
proof -
  from assms obtain b where "submitButton p = Some b"
    by (auto simp: submitStart_def split: option.splits)
  then have 1: "\<exists>b. submitButton (submitSettle oc p) = Some b \<and> \<not> disabled b \<and> label b = js ''Kirim Pesan''"
    by (simp add: settle_button)
  have 2: "clearTimers (submitSettle oc p) = clearTimers p @ [clock p + 6000]"
    and 3: "clock (submitSettle oc p) = clock p"
    using settle_timers [of oc p] by (simp_all add: formStatusClear_def)
  have 4: "statusText (advance t (submitSettle oc p)) = []" if "clock p + 6000 \<le> t" for t
    using that 2 3 advance_due [of "clock p + 6000" "submitSettle oc p" t] by simp
  from 1 2 3 4 show ?thesis by blast
qed

theorem status_cleared_witness:
  "submitStart \<lparr>formFields = [\<lparr>fieldValue = js ''hi'', defaultValue = []\<rparr>],
      submitButton = Some \<lparr>disabled = False, label = js ''Kirim Pesan''\<rparr>,
      statusText = [], statusColor = [], clock = 1000, clearTimers = []\<rparr>
     = Done \<lparr>formFields = [\<lparr>fieldValue = js ''hi'', defaultValue = []\<rparr>],
      submitButton = Some \<lparr>disabled = True, label = js ''Mengirim...''\<rparr>,
      statusText = [], statusColor = [], clock = 1000, clearTimers = []\<rparr>
   \<and> submitSettle Rejected \<lparr>formFields = [\<lparr>fieldValue = js ''hi'', defaultValue = []\<rparr>],
      submitButton = Some \<lparr>disabled = True, label = js ''Mengirim...''\<rparr>,
      statusText = [], statusColor = [], clock = 1000, clearTimers = []\<rparr>
     = \<lparr>formFields = [\<lparr>fieldValue = js ''hi'', defaultValue = []\<rparr>],
      submitButton = Some \<lparr>disabled = False, label = js ''Kirim Pesan''\<rparr>,
      statusText = connectionFailure, statusColor = js ''red'', clock = 1000, clearTimers = [7000]\<rparr>
   \<and> statusText (advance 7000 \<lparr>formFields = [\<lparr>fieldValue = js ''hi'', defaultValue = []\<rparr>],
      submitButton = Some \<lparr>disabled = False, label = js ''Kirim Pesan''\<rparr>,
      statusText = connectionFailure, statusColor = js ''red'', clock = 1000, clearTimers = [7000]\<rparr>) = []"
proof -
  let ?p0 = "\<lparr>formFields = [\<lparr>fieldValue = js ''hi'', defaultValue = []\<rparr>],
      submitButton = Some \<lparr>disabled = False, label = js ''Kirim Pesan''\<rparr>,
      statusText = [], statusColor = [], clock = 1000, clearTimers = []\<rparr>"
  let ?p1 = "\<lparr>formFields = [\<lparr>fieldValue = js ''hi'', defaultValue = []\<rparr>],
      submitButton = Some \<lparr>disabled = True, label = js ''Mengirim...''\<rparr>,
      statusText = [], statusColor = [], clock = 1000, clearTimers = []\<rparr>"
  have s: "submitStart ?p0 = Done ?p1" by (simp add: submitStart_def)
  have e: "submitSettle Rejected ?p1 = \<lparr>formFields = [\<lparr>fieldValue = js ''hi'', defaultValue = []\<rparr>],
      submitButton = Some \<lparr>disabled = False, label = js ''Kirim Pesan''\<rparr>,
      statusText = connectionFailure, statusColor = js ''red'', clock = 1000, clearTimers = [7000]\<rparr>"
    by (simp add: submitSettle_def tryBody_def Let_def formStatusClear_def)
  from status_cleared [OF s, of Rejected] have "statusText (advance 7000 (submitSettle Rejected ?p1)) = []"
    by simp
  with s e show ?thesis by simp
qed

text \<open>
  The label the handler writes is a constant: a button that read \<^verbatim>\<open>Send\<close> before a rejected
  request does not get that label back.
\<close>

theorem label_not_restored_counterexample:
  "submitStart \<lparr>formFields = [\<lparr>fieldValue = js ''hi'', defaultValue = []\<rparr>],
      submitButton = Some \<lparr>disabled = False, label = js ''Send''\<rparr>,
      statusText = [], statusColor = [], clock = 1000, clearTimers = []\<rparr>
     = Done \<lparr>formFields = [\<lparr>fieldValue = js ''hi'', defaultValue = []\<rparr>],
      submitButton = Some \<lparr>disabled = True, label = js ''Mengirim...''\<rparr>,
      statusText = [], statusColor = [], clock = 1000, clearTimers = []\<rparr>
   \<and> submitSettle Rejected \<lparr>formFields = [\<lparr>fieldValue = js ''hi'', defaultValue = []\<rparr>],
      submitButton = Some \<lparr>disabled = True, label = js ''Mengirim...''\<rparr>,
      statusText = [], statusColor = [], clock = 1000, clearTimers = []\<rparr>
     = \<lparr>formFields = [\<lparr>fieldValue = js ''hi'', defaultValue = []\<rparr>],
      submitButton = Some \<lparr>disabled = False, label = js ''Kirim Pesan''\<rparr>,
      statusText = connectionFailure, statusColor = js ''red'', clock = 1000, clearTimers = [7000]\<rparr>
   \<and> js ''Kirim Pesan'' \<noteq> js ''Send''"
  by (simp add: submitSettle_def tryBody_def submitStart_def response_ok_def Let_def form_reset_def formStatusClear_def js_def)

end
